theory Spec2Isabelle
  imports Main "HOL-Library.Word"
begin

section \<open>Resource-manager task tracker (resmgr/task/tracker.go)\<close>

text \<open>
  The tracker keeps two indexes over the same \<open>*RMTask\<close> objects: \<open>tasks\<close>
  (peloton task id to task) and \<open>placements\<close> (hostname to task type to task id
  to task). Both hold pointers, and \<open>setPlacement\<close> writes the hostname into
  the shared object, so the objects live in an explicit store \<open>objs\<close> indexed by
  address. The tracker lock is not modelled: every exported operation holds it for
  its whole body, so the operations below are the atomic steps.
\<close>

datatype TaskState =
    TaskState_UNKNOWN | TaskState_INITIALIZED | TaskState_PENDING | TaskState_READY
  | TaskState_PLACING | TaskState_PLACED | TaskState_LAUNCHING | TaskState_LAUNCHED
  | TaskState_STARTING | TaskState_RUNNING | TaskState_SUCCEEDED | TaskState_FAILED
  | TaskState_LOST | TaskState_PREEMPTING | TaskState_KILLING | TaskState_KILLED
  | TaskState_DELETED | TaskState_RESERVED

datatype TaskType =
    TaskType_UNKNOWN | TaskType_BATCH | TaskType_STATELESS | TaskType_DAEMON
  | TaskType_STATEFUL

text \<open>
  An \<open>RMTask\<close>: the fields of its \<open>resmgr.Task\<close> that the tracker reads
  (\<open>Id.Value\<close>, \<open>TaskId.Value\<close>, \<open>Hostname\<close>, \<open>Type\<close>), the current state of
  its state machine, whether the state machine has been terminated, the address of
  its resource pool and the allocation \<open>scalar.GetTaskAllocation\<close> computes for it.
  \<open>TaskId\<close> is a pointer in the source; \<open>None\<close> is the nil pointer.
\<close>

record 'a RMTask =
  task_Id :: string
  task_TaskId :: "string option"
  task_Hostname :: string
  task_Type :: TaskType
  currentState :: TaskState
  terminated :: bool
  respool :: nat
  taskAllocation :: 'a

type_synonym placement_index = "string \<rightharpoonup> (TaskType \<rightharpoonup> (string \<rightharpoonup> nat))"

text \<open>
  The tracker with what it reaches: the two indexes, the task objects, the resource
  pools (\<open>'p\<close> is the state of one pool) and the \<open>MarkHostDrained\<close> requests sent
  to the host manager, oldest first.
\<close>

record ('a, 'p) tracker =
  tasks :: "string \<rightharpoonup> nat"
  placements :: placement_index
  objs :: "nat \<Rightarrow> 'a RMTask"
  pools :: "nat \<Rightarrow> 'p"
  drained :: "string list"

datatype tracker_error =
    TaskNotInTracker string
  | MesosIdDiffers string string string
  | FailedUpdateTask string
  | NilPointerPanic

text \<open>
  Reading through a missing key: in Go \<open>tr.placements[h]\<close> of an absent host is the
  nil map, which reads as an empty map, has length 0 and ignores \<open>delete\<close>.
\<close>

definition hostTypes :: "placement_index \<Rightarrow> string \<Rightarrow> (TaskType \<rightharpoonup> (string \<rightharpoonup> nat))" where
  "hostTypes p h = (case p h of None \<Rightarrow> Map.empty | Some hm \<Rightarrow> hm)"

definition hostTasks :: "placement_index \<Rightarrow> string \<Rightarrow> TaskType \<Rightarrow> (string \<rightharpoonup> nat)" where
  "hostTasks p h ty = (case hostTypes p h ty of None \<Rightarrow> Map.empty | Some tm \<Rightarrow> tm)"

text \<open>\<open>delete(tr.placements[h][ty], id)\<close>\<close>

definition deleteTaskEntry :: "placement_index \<Rightarrow> string \<Rightarrow> TaskType \<Rightarrow> string \<Rightarrow> placement_index" where
  "deleteTaskEntry p h ty tid =
     (case p h of
        None \<Rightarrow> p
      | Some hm \<Rightarrow>
          (case hm ty of
             None \<Rightarrow> p
           | Some tm \<Rightarrow> p(h \<mapsto> hm(ty \<mapsto> tm(tid := None)))))"

text \<open>\<open>delete(tr.placements[h], ty)\<close>\<close>

definition deleteTypeEntry :: "placement_index \<Rightarrow> string \<Rightarrow> TaskType \<Rightarrow> placement_index" where
  "deleteTypeEntry p h ty =
     (case p h of None \<Rightarrow> p | Some hm \<Rightarrow> p(h \<mapsto> hm(ty := None)))"

definition getTask :: "('a, 'p) tracker \<Rightarrow> string \<Rightarrow> nat option" where
  "getTask tr tid = tasks tr tid"

text \<open>
  \<open>clearPlacement\<close>: nothing for a task without hostname; otherwise the task id
  leaves the map of its host and type, an emptied type map leaves the host's map,
  and an emptied host leaves the index and is reported with \<open>MarkHostDrained\<close>
  (an error of that call is only logged).
\<close>

definition clearPlacement :: "('a, 'p) tracker \<Rightarrow> nat \<Rightarrow> ('a, 'p) tracker" where
  "clearPlacement tr a =
     (let t = objs tr a; h = task_Hostname t; ty = task_Type t in
      if h = [] then tr
      else
        let p1 = deleteTaskEntry (placements tr) h ty (task_Id t);
            p2 = (if hostTasks p1 h ty = Map.empty then deleteTypeEntry p1 h ty else p1)
        in if hostTypes p2 h = Map.empty
           then tr\<lparr>placements := p2(h := None), drained := drained tr @ [h]\<rparr>
           else tr\<lparr>placements := p2\<rparr>)"

text \<open>
  \<open>setPlacement\<close>: unknown task ids are ignored; otherwise the old placement is
  cleared, the hostname is written into the task object, and the task is filed
  under the hostname and its type; \<open>addPlacementEntry\<close> is the three
  \<open>if _, exists := ...; !exists\<close> steps, each creating the next level where it is
  missing.
\<close>

definition addPlacementEntry ::
  "placement_index \<Rightarrow> string \<Rightarrow> TaskType \<Rightarrow> string \<Rightarrow> nat \<Rightarrow> placement_index" where
  "addPlacementEntry p0 hostname ty tid a =
     (let p1 = (if p0 hostname = None then p0(hostname \<mapsto> Map.empty) else p0);
          p2 = (if hostTypes p1 hostname ty = None
                then p1(hostname \<mapsto> (hostTypes p1 hostname)(ty \<mapsto> Map.empty)) else p1)
      in if hostTasks p2 hostname ty tid = None
         then p2(hostname \<mapsto> (hostTypes p2 hostname)(ty \<mapsto> (hostTasks p2 hostname ty)(tid \<mapsto> a)))
         else p2)"

definition setPlacement :: "('a, 'p) tracker \<Rightarrow> string \<Rightarrow> string \<Rightarrow> ('a, 'p) tracker" where
  "setPlacement tr tid hostname =
     (case tasks tr tid of
        None \<Rightarrow> tr
      | Some a \<Rightarrow>
          let tr1 = clearPlacement tr a;
              tr2 = tr1\<lparr>objs := (objs tr1)(a := (objs tr1 a)\<lparr>task_Hostname := hostname\<rparr>)\<rparr>
          in tr2\<lparr>placements :=
                 addPlacementEntry (placements tr2) hostname (task_Type (objs tr2 a)) tid a\<rparr>)"


text \<open>\<open>SetPlacementHost\<close>: \<open>setPlacement\<close> for every task of the placement, in order.\<close>

definition SetPlacementHost :: "('a, 'p) tracker \<Rightarrow> string list \<Rightarrow> string \<Rightarrow> ('a, 'p) tracker" where
  "SetPlacementHost tr placementTasks hostname =
     foldl (\<lambda>s tid. setPlacement s tid hostname) tr placementTasks"

text \<open>
  \<open>AddTask\<close> after \<open>CreateRMTask\<close> has succeeded: \<open>a\<close> is the address of the new
  task object and \<open>t\<close> its content.
\<close>

definition AddTask :: "('a, 'p) tracker \<Rightarrow> nat \<Rightarrow> 'a RMTask \<Rightarrow> ('a, 'p) tracker" where
  "AddTask tr a t =
     (let tr1 = tr\<lparr>objs := (objs tr)(a := t), tasks := (tasks tr)(task_Id t \<mapsto> a)\<rparr>
      in if task_Hostname t \<noteq> [] then setPlacement tr1 (task_Id t) (task_Hostname t) else tr1)"

definition deleteTask :: "('a, 'p) tracker \<Rightarrow> string \<Rightarrow> ('a, 'p) tracker" where
  "deleteTask tr tid =
     (let tr1 = (case tasks tr tid of Some a \<Rightarrow> clearPlacement tr a | None \<Rightarrow> tr)
      in tr1\<lparr>tasks := (tasks tr1)(tid := None)\<rparr>)"


text \<open>
  \<open>markItDone\<close>. \<open>SubtractFromAllocation\<close> belongs to the resource pool, whose code
  is outside this package: it is the parameter \<open>sub\<close>, which returns the new pool
  state or \<open>None\<close> for an error. The result is the returned error (\<open>None\<close> is
  \<open>nil\<close>) and the tracker afterwards.
\<close>

definition markItDone ::
  "('p \<Rightarrow> 'a \<Rightarrow> 'p option) \<Rightarrow> ('a, 'p) tracker \<Rightarrow> nat \<Rightarrow> string
     \<Rightarrow> tracker_error option \<times> ('a, 'p) tracker" where
  "markItDone sub tr a mesosTaskID =
     (let t = objs tr a; tID = task_Id t in
      case task_TaskId t of
        None \<Rightarrow> (Some NilPointerPanic, tr)
      | Some stored \<Rightarrow>
          if stored \<noteq> mesosTaskID then (Some (MesosIdDiffers tID stored mesosTaskID), tr)
          else
            let terminate = (\<lambda>s. s\<lparr>objs := (objs s)(a := (objs s a)\<lparr>terminated := True\<rparr>)\<rparr>)
            in if \<not> (currentState t = TaskState_PENDING \<or> currentState t = TaskState_INITIALIZED)
               then (case sub (pools tr (respool t)) (taskAllocation t) of
                       None \<Rightarrow> (Some (FailedUpdateTask tID), tr)
                     | Some p' \<Rightarrow>
                         (None, deleteTask (terminate (tr\<lparr>pools := (pools tr)(respool t := p')\<rparr>)) tID))
               else (None, deleteTask (terminate tr) tID))"

definition MarkItDone ::
  "('p \<Rightarrow> 'a \<Rightarrow> 'p option) \<Rightarrow> ('a, 'p) tracker \<Rightarrow> string \<Rightarrow> string
     \<Rightarrow> tracker_error option \<times> ('a, 'p) tracker" where
  "MarkItDone sub tr tID mesosTaskID =
     (case getTask tr tID of
        None \<Rightarrow> (Some (TaskNotInTracker tID), tr)
      | Some a \<Rightarrow> markItDone sub tr a mesosTaskID)"

definition Clear :: "('a, 'p) tracker \<Rightarrow> ('a, 'p) tracker" where
  "Clear tr = tr\<lparr>tasks := Map.empty, placements := Map.empty\<rparr>"

text \<open>
  The state the tracker keeps between operations: every task is filed under its own
  id; no map of the placement index is stored empty; and an entry of the placement
  index is a tracked task whose hostname and type are the ones it is filed under,
  the hostname not being empty.
\<close>

definition tracker_inv :: "('a, 'p) tracker \<Rightarrow> bool" where
  "tracker_inv tr \<longleftrightarrow>
     (\<forall>k a. tasks tr k = Some a \<longrightarrow> task_Id (objs tr a) = k) \<and>
     (\<forall>h ty. hostTypes (placements tr) h ty \<noteq> Some Map.empty) \<and>
     (\<forall>h ty k a. hostTasks (placements tr) h ty k = Some a \<longrightarrow>
         h \<noteq> [] \<and> tasks tr k = Some a \<and>
         task_Hostname (objs tr a) = h \<and> task_Type (objs tr a) = ty)"



text \<open>What a successful \<open>markItDone\<close> leaves, given the pools after the release.\<close>

definition doneState :: "('a, 'p) tracker \<Rightarrow> nat \<Rightarrow> (nat \<Rightarrow> 'p) \<Rightarrow> ('a, 'p) tracker" where
  "doneState tr a P =
     deleteTask (tr\<lparr>pools := P, objs := (objs tr)(a := (objs tr a)\<lparr>terminated := True\<rparr>)\<rparr>)
       (task_Id (objs tr a))"

text \<open>A task id is in neither index.\<close>

definition untracked :: "('a, 'p) tracker \<Rightarrow> string \<Rightarrow> bool" where
  "untracked tr tid \<longleftrightarrow>
     tasks tr tid = None \<and> (\<forall>h ty. hostTasks (placements tr) h ty tid = None)"

text \<open>
  A tracker to run the operations on: one running batch task on host \<open>h1\<close>, with an
  allocation of 2, in a pool that holds \<open>n\<close>. The pool \<open>boundedRelease\<close> refuses
  to release more than it holds.
\<close>

definition task0 :: "nat RMTask" where
  "task0 = \<lparr>task_Id = ''job1-0'', task_TaskId = Some ''job1-0-run1'', task_Hostname = ''h1'',
            task_Type = TaskType_BATCH, currentState = TaskState_RUNNING, terminated = False,
            respool = 0, taskAllocation = 2\<rparr>"

definition tracker0 :: "nat \<Rightarrow> (nat, nat) tracker" where
  "tracker0 n = \<lparr>tasks = [''job1-0'' \<mapsto> 0],
                 placements = [''h1'' \<mapsto> [TaskType_BATCH \<mapsto> [''job1-0'' \<mapsto> 0]]],
                 objs = (\<lambda>_. task0), pools = (\<lambda>_. n), drained = []\<rparr>"

definition boundedRelease :: "nat \<Rightarrow> nat \<Rightarrow> nat option" where
  "boundedRelease p a = (if a \<le> p then Some (p - a) else None)"

section \<open>Host-offer matcher (pkg/hostmgr/offer/offerpool/matcher.go)\<close>

text \<open>
  The host filter as far as the matcher reads it. \<open>Quantity\<close> is a pointer and the
  filter itself is held by pointer; the generated getters \<open>GetQuantity\<close> and
  \<open>GetMaxHosts\<close> return the zero value through a nil pointer.
\<close>

record QuantityControl =
  MaxHosts :: "32 word"

record HostFilter =
  Quantity :: "QuantityControl option"

definition GetQuantity :: "HostFilter option \<Rightarrow> QuantityControl option" where
  "GetQuantity f = (case f of None \<Rightarrow> None | Some x \<Rightarrow> Quantity x)"

definition GetMaxHosts :: "QuantityControl option \<Rightarrow> 32 word" where
  "GetMaxHosts q = (case q of None \<Rightarrow> 0 | Some x \<Rightarrow> MaxHosts x)"

definition effectiveHostLimit :: "HostFilter option \<Rightarrow> 32 word" where
  "effectiveHostLimit f =
     (let limit = GetMaxHosts (GetQuantity f)
      in if limit = 0 then 0xFFFFFFFF else limit)"

text \<open>
  Modelled from the spec: the enum \<open>hostsvc.HostFilterResult\<close> and its table
  \<open>HostFilterResult_name\<close> are generated code outside the sources. The named values
  are the result codes the matcher records (MATCH, MISMATCH_CONSTRAINTS,
  MISMATCH_RESOURCES, MISMATCH_STATUS, MISMATCH_MAX_HOST_LIMIT); the Go type is an
  \<open>int32\<close>, so a value without a name exists as well, for which the table has no entry.
\<close>

datatype HostFilterResult =
    HostFilterResult_MATCH
  | HostFilterResult_MISMATCH_CONSTRAINTS
  | HostFilterResult_MISMATCH_RESOURCES
  | HostFilterResult_MISMATCH_STATUS
  | HostFilterResult_MISMATCH_MAX_HOST_LIMIT
  | HostFilterResult_unnamed int

fun HostFilterResult_name :: "HostFilterResult \<Rightarrow> string option" where
  "HostFilterResult_name HostFilterResult_MATCH = Some ''MATCH''"
| "HostFilterResult_name HostFilterResult_MISMATCH_CONSTRAINTS = Some ''MISMATCH_CONSTRAINTS''"
| "HostFilterResult_name HostFilterResult_MISMATCH_RESOURCES = Some ''MISMATCH_RESOURCES''"
| "HostFilterResult_name HostFilterResult_MISMATCH_STATUS = Some ''MISMATCH_STATUS''"
| "HostFilterResult_name HostFilterResult_MISMATCH_MAX_HOST_LIMIT = Some ''MISMATCH_MAX_HOST_LIMIT''"
| "HostFilterResult_name (HostFilterResult_unnamed v) = None"

text \<open>\<open>strings.ToLower\<close> on the ASCII names of the table: an upper-case letter gets bit 5.\<close>

fun toLowerChar :: "char \<Rightarrow> char" where
  "toLowerChar (Char b0 b1 b2 b3 b4 b5 b6 b7) =
     (let n = (of_char (Char b0 b1 b2 b3 b4 b5 b6 b7) :: nat)
      in if 65 \<le> n \<and> n \<le> 90 then Char b0 b1 b2 b3 b4 True b6 b7
         else Char b0 b1 b2 b3 b4 b5 b6 b7)"

definition toLower :: "string \<Rightarrow> string" where
  "toLower s = map toLowerChar s"

text \<open>
  The matcher: its filter, the matched offers by hostname and the count of every
  result code by lower-case name. \<open>'o\<close> is a \<open>*summary.Offer\<close>. The evaluator is
  only handed on to the host summary and is part of \<open>TryMatch\<close> below.
\<close>

record 'o Matcher =
  hostFilter :: "HostFilter option"
  hostOffers :: "string \<rightharpoonup> 'o"
  filterResultCounts :: "string \<rightharpoonup> 32 word"

text \<open>What \<open>summary.HostSummary.TryMatch\<close> returns.\<close>

record 'o Match =
  Result :: HostFilterResult
  Offer :: 'o

text \<open>\<open>len(m.hostOffers)\<close> is an \<open>int\<close>; the conversion to \<open>uint32\<close> truncates.\<close>

definition HasEnoughHosts :: "'o Matcher \<Rightarrow> bool" where
  "HasEnoughHosts m \<longleftrightarrow>
     (of_nat (card (dom (hostOffers m))) :: 32 word) \<ge> effectiveHostLimit (hostFilter m)"

text \<open>
  \<open>tryMatchImpl\<close>. The host summary \<open>s\<close> belongs to another package: it is the
  function from the filter to the match that \<open>s.TryMatch(m.hostFilter, m.evaluator)\<close>
  returns, and it is asked only in the third case.
\<close>

definition tryMatchImpl ::
  "'o Matcher \<Rightarrow> string \<Rightarrow> (HostFilter option \<Rightarrow> 'o Match) \<Rightarrow> HostFilterResult \<times> 'o Matcher" where
  "tryMatchImpl m hostname s =
     (if HasEnoughHosts m then (HostFilterResult_MISMATCH_MAX_HOST_LIMIT, m)
      else if hostOffers m hostname \<noteq> None then (HostFilterResult_MATCH, m)
      else
        let match = s (hostFilter m)
        in (Result match,
            if Result match = HostFilterResult_MATCH
            then m\<lparr>hostOffers := (hostOffers m)(hostname \<mapsto> Offer match)\<rparr>
            else m))"

text \<open>\<open>m.filterResultCounts[key]++\<close>: a missing key counts from zero.\<close>

definition increment :: "(string \<rightharpoonup> 32 word) \<Rightarrow> string \<Rightarrow> (string \<rightharpoonup> 32 word)" where
  "increment counts key = counts(key \<mapsto> (case counts key of None \<Rightarrow> 0 | Some c \<Rightarrow> c) + 1)"

definition tryMatch ::
  "'o Matcher \<Rightarrow> string \<Rightarrow> (HostFilter option \<Rightarrow> 'o Match) \<Rightarrow> 'o Matcher" where
  "tryMatch m hostname s =
     (let (result, m1) = tryMatchImpl m hostname s
      in case HostFilterResult_name result of
           None \<Rightarrow> m1
         | Some name \<Rightarrow>
             m1\<lparr>filterResultCounts := increment (filterResultCounts m1) (toLower name)\<rparr>)"

text \<open>\<open>getHostOffers\<close> returns both maps and leaves the matcher with fresh ones.\<close>

definition getHostOffers ::
  "'o Matcher \<Rightarrow> ((string \<rightharpoonup> 'o) \<times> (string \<rightharpoonup> 32 word)) \<times> 'o Matcher" where
  "getHostOffers m =
     ((hostOffers m, filterResultCounts m),
      m\<lparr>hostOffers := Map.empty, filterResultCounts := Map.empty\<rparr>)"

definition NewMatcher :: "HostFilter option \<Rightarrow> 'o Matcher" where
  "NewMatcher f = \<lparr>hostFilter = f, hostOffers = Map.empty, filterResultCounts = Map.empty\<rparr>"

text \<open>
  What the matcher keeps: finitely many matched hosts, and never more than the
  effective limit.
\<close>

definition matcher_inv :: "'o Matcher \<Rightarrow> bool" where
  "matcher_inv m \<longleftrightarrow>
     finite (dom (hostOffers m)) \<and>
     card (dom (hostOffers m)) \<le> unat (effectiveHostLimit (hostFilter m))"

text \<open>Matchers and host summaries to run the operations on.\<close>

definition filter2 :: "HostFilter option" where
  "filter2 = Some \<lparr>Quantity = Some \<lparr>MaxHosts = 2\<rparr>\<rparr>"

definition matcherFull :: "nat Matcher" where
  "matcherFull = \<lparr>hostFilter = filter2, hostOffers = [''h1'' \<mapsto> 11, ''h2'' \<mapsto> 12],
                   filterResultCounts = [''match'' \<mapsto> 2]\<rparr>"

definition matcherOne :: "nat Matcher" where
  "matcherOne = \<lparr>hostFilter = filter2, hostOffers = [''h1'' \<mapsto> 11],
                  filterResultCounts = [''match'' \<mapsto> 1]\<rparr>"

definition summaryMatching :: "nat \<Rightarrow> HostFilter option \<Rightarrow> nat Match" where
  "summaryMatching offer f = \<lparr>Result = HostFilterResult_MATCH, Offer = offer\<rparr>"

section \<open>Job configuration validation (jobmgr/job/config/validate.go)\<close>

text \<open>
  The job configuration as far as validation reads it. Pointers of the source are
  options (\<open>None\<close> is nil); the generated getters read through nil and give the
  zero value. \<open>uint32\<close> values are natural numbers: they are only compared and
  copied, and the loop counter stays below \<open>to\<close>. \<open>'c\<close> is a command, \<open>'l\<close> a
  list of labels. Validation writes into the configuration it is given, so every
  function returns the configuration as it is afterwards; task configurations and
  restart policies are taken to be distinct objects, as unmarshalling builds them.
\<close>

record PortConfig =
  port_Name :: string
  port_Value :: nat
  port_EnvName :: string

record RestartPolicy =
  MaxFailures :: nat

record 'c TaskConfig =
  task_Ports :: "PortConfig list"
  task_RestartPolicy :: "RestartPolicy option"
  task_Command :: "'c option"

record SlaConfig =
  MaximumRunningInstances :: nat
  MinimumRunningInstances :: nat

datatype JobType = JobType_BATCH | JobType_SERVICE | JobType_DAEMON | JobType_STATELESS | JobType_STATEFUL

record ('c, 'l) JobConfig =
  job_Name :: string
  job_Labels :: 'l
  job_OwningTeam :: string
  job_RespoolID :: "string option"
  job_Type :: JobType
  job_LdapGroups :: "string list"
  DefaultConfig :: "'c TaskConfig option"
  InstanceConfig :: "nat \<rightharpoonup> 'c TaskConfig"
  InstanceCount :: nat
  SLA :: "SlaConfig option"

datatype validate_error =
    errPortNameMissing
  | errPortEnvNameMissing
  | errMaxInstancesTooBig
  | errMInInstancesTooBig
  | TooManyTasks nat nat
  | MissingTaskConfig nat
  | MissingCommandInfo nat
  | UpdateNotSupported string
  | InstanceCountLess
  | ExistingInstanceConfigUpdated

definition maxTaskRetries :: nat where
  "maxTaskRetries = 100"

















text \<open>The configuration with every \<open>MaxFailures\<close> set to zero.\<close>

definition zeroPolicy :: "'c TaskConfig \<Rightarrow> 'c TaskConfig" where
  "zeroPolicy t = t\<lparr>task_RestartPolicy := map_option (\<lambda>r. r\<lparr>MaxFailures := 0\<rparr>) (task_RestartPolicy t)\<rparr>"

definition withoutMaxFailures :: "('c, 'l) JobConfig \<Rightarrow> ('c, 'l) JobConfig" where
  "withoutMaxFailures jobConfig =
     jobConfig\<lparr>DefaultConfig := map_option zeroPolicy (DefaultConfig jobConfig),
               InstanceConfig := (\<lambda>i. map_option zeroPolicy (InstanceConfig jobConfig i))\<rparr>"

text \<open>A value after the loop: as before, or the maximum in place of a larger one.\<close>

definition capped :: "nat \<Rightarrow> nat \<Rightarrow> bool" where
  "capped before after \<longleftrightarrow>
     after = before \<or> (before > maxTaskRetries \<and> after = maxTaskRetries)"





section \<open>Placement processor (jobmgr/task/placement/placement.go)\<close>

text \<open>
  The task runtime and task info as far as the processor reads and writes them.
  \<open>AgentID\<close> is a pointer to a message whose \<open>Value\<close> is a pointer again:
  \<open>Some \<lparr>agent_Value = None\<rparr>\<close> is \<open>&mesosv1.AgentID{}\<close>. The task states are
  the ones of the tracker.
\<close>

record AgentID =
  agent_Value :: "string option"

record RuntimeInfo =
  rt_State :: TaskState
  rt_GoalState :: TaskState
  rt_MesosTaskId :: "string option"
  rt_Host :: string
  rt_AgentID :: "AgentID option"
  rt_Ports :: "string \<rightharpoonup> nat"
  rt_Reason :: string
  rt_Message :: string

record TaskInfo =
  info_JobId :: string
  info_InstanceId :: nat
  info_Runtime :: "RuntimeInfo option"

record Placement =
  pl_Tasks :: "string list"
  pl_Hostname :: string
  pl_AgentId :: "AgentID option"
  pl_Ports :: "nat list"
  pl_Type :: TaskType

datatype db_error = TransientError | PermanentError

datatype launcher_error =
    GetLaunchableTasksFailed | LaunchInvalidOffers | LaunchInvalidArgument | LaunchFailed

text \<open>
  The collaborators of the processor, none of which is in this package. Each is
  what it answers: \<open>util.ParseTaskID\<close>, the cached runtime of a task
  (\<open>cachedTask.GetRunTime\<close>, \<open>None\<close> for an error) before and after an update,
  \<open>cachedJob.UpdateTasks\<close> by job, instance, runtime and number of the attempt
  (\<open>None\<close> is success, the error is classified by \<open>common.IsTransientError\<close>),
  \<open>taskLauncher.GetLaunchableTasks\<close> and \<open>taskLauncher.ProcessPlacement\<close>, and
  \<open>util.RegenerateMesosTaskID\<close>. The answers for one task do not depend on what
  was done for another task of the same placement. A map of task infos is the list
  of its entries in the order the \<open>range\<close> loop visits them.
\<close>

record collaborators =
  parseTaskID :: "string \<Rightarrow> (string \<times> nat) option"
  getRunTime :: "string \<Rightarrow> nat \<Rightarrow> RuntimeInfo option"
  getRunTimeAfterUpdate :: "string \<Rightarrow> nat \<Rightarrow> RuntimeInfo option"
  updateTasks :: "string \<Rightarrow> nat \<Rightarrow> RuntimeInfo option \<Rightarrow> nat \<Rightarrow> db_error option"
  getLaunchableTasks :: "Placement \<Rightarrow> launcher_error + (string \<times> TaskInfo) list"
  launcherProcessPlacement :: "(string \<times> TaskInfo) list \<Rightarrow> Placement \<Rightarrow> launcher_error option"
  regenerateMesosTaskID :: "string \<Rightarrow> nat \<Rightarrow> string option \<Rightarrow> RuntimeInfo"







text \<open>
  The runtime \<open>enqueueTasks\<close> writes for a task it sends back: a new mesos task id,
  the message and the reason of the rejection, an empty agent id and no ports.
\<close>

definition rejectedRuntime :: "collaborators \<Rightarrow> TaskInfo \<Rightarrow> RuntimeInfo" where
  "rejectedRuntime c t =
     (regenerateMesosTaskID c (info_JobId t) (info_InstanceId t)
        (case info_Runtime t of None \<Rightarrow> None | Some r \<Rightarrow> rt_MesosTaskId r))
       \<lparr>rt_Message := ''Regenerate placement'',
        rt_Reason := ''REASON_HOST_REJECT_OFFER'',
        rt_AgentID := Some \<lparr>agent_Value = None\<rparr>,
        rt_Ports := Map.empty\<rparr>"





text \<open>
  Collaborators and a placement to run the processor on: one task \<open>testjob-0\<close>
  whose cached runtime is pending with goal state KILLED; every update succeeds and
  the launcher accepts what it is given.
\<close>

definition killedRuntime :: RuntimeInfo where
  "killedRuntime = \<lparr>rt_State = TaskState_PENDING, rt_GoalState = TaskState_KILLED,
     rt_MesosTaskId = Some ''testjob-0-run1'', rt_Host = [], rt_AgentID = None,
     rt_Ports = Map.empty, rt_Reason = [], rt_Message = []\<rparr>"

definition testTask :: TaskInfo where
  "testTask = \<lparr>info_JobId = ''testjob'', info_InstanceId = 0, info_Runtime = Some killedRuntime\<rparr>"

definition testPlacement :: Placement where
  "testPlacement = \<lparr>pl_Tasks = [''testjob-0''], pl_Hostname = ''hostname-0'',
     pl_AgentId = Some \<lparr>agent_Value = Some ''agent-0''\<rparr>, pl_Ports = [100],
     pl_Type = TaskType_BATCH\<rparr>"

definition testCollaborators :: collaborators where
  "testCollaborators =
     \<lparr>parseTaskID = (\<lambda>s. if s = ''testjob-0'' then Some (''testjob'', 0) else None),
      getRunTime = (\<lambda>j i. Some killedRuntime),
      getRunTimeAfterUpdate = (\<lambda>j i. Some killedRuntime),
      updateTasks = (\<lambda>j i r n. None),
      getLaunchableTasks = (\<lambda>p. Inr [(''testjob-0'', testTask)]),
      launcherProcessPlacement = (\<lambda>ts p. None),
      regenerateMesosTaskID = (\<lambda>j i m. killedRuntime)\<rparr>"


section \<open>Task launcher\<close>

text \<open>
  The launcher (package \<open>jobmgr/task/launcher\<close>) is not among the sources: only its
  tests are (\<open>TestLaunchTasksWithInvalidOfferResponse\<close>,
  \<open>TestLaunchTasksRetryWithError\<close>, \<open>TestLaunchStatefulTask\<close>,
  \<open>TestLaunchStatefulTaskLaunchWithVolume\<close>). The definitions of this section
  follow the specification's description of the launcher; the runtime written for a
  task that is sent back is \<open>rejectedRuntime\<close>, taken from \<open>enqueueTasks\<close> of the
  placement processor.
\<close>

text \<open>Modelled from the spec: the rejections of a launch by the cluster manager
  (\<open>CMReject\<close>: InvalidOffers, InvalidArgument, LaunchFailed); the launcher that
  receives them is missing.\<close>

datatype CMReject = InvalidOffers | InvalidArgument | CMLaunchFailed

text \<open>Modelled from the spec: the state of a persistent volume as the volume store
  of the missing launcher reports it; only CREATED is told apart.\<close>

datatype VolumeState =
  VolumeState_UNKNOWN | VolumeState_INITIALIZED | VolumeState_CREATED | VolumeState_DELETED

text \<open>Modelled from the spec: the operations of an \<open>OfferOperations\<close> request of the
  missing launcher (RESERVE, CREATE, LAUNCH).\<close>

datatype OperationType = RESERVE | CREATE | LAUNCH

text \<open>Modelled from the spec: the two requests the missing launcher sends to the
  cluster manager, \<open>LaunchTasks(host, taskList)\<close> and \<open>OfferOperations\<close> with its
  sequence of operations.\<close>

datatype cm_request =
    LaunchTasksRequest string "string list"
  | OfferOperationsRequest string "OperationType list"

text \<open>Modelled from the spec: what the missing launcher is given for a placement:
  the placement, the tasks of the gang by task id, whether the task configuration
  has a persistent-volume spec, and the state of that volume in the volume store
  (\<open>None\<close> when the store has no volume yet).\<close>

record launch_job =
  lj_Placement :: Placement
  lj_Tasks :: "(string \<times> TaskInfo) list"
  lj_HasVolumeSpec :: bool
  lj_VolumeState :: "VolumeState option"

text \<open>Modelled from the spec: what the missing launcher does to the outside, oldest
  first: the requests sent to the cluster manager, the launch retries counted, the
  hosts whose offers were released, the runtimes written with \<open>updateTaskRuntime\<close>
  and the gangs sent back with \<open>EnqueueGangs\<close>.\<close>

record launcher_effects =
  cmRequests :: "cm_request list"
  launchRetries :: nat
  releasedHosts :: "string list"
  updatedRuntimes :: "(string \<times> nat \<times> RuntimeInfo) list"
  enqueuedGangs :: "(string \<times> nat) list list"

text \<open>Modelled from the spec: the stateful launch of the missing launcher issues
  the ordered sequence RESERVE, CREATE, LAUNCH, unless the volume is already in
  CREATED state, then LAUNCH alone.\<close>

definition statefulOperations :: "VolumeState option \<Rightarrow> OperationType list" where
  "statefulOperations volumeState =
     (if volumeState = Some VolumeState_CREATED then [LAUNCH] else [RESERVE, CREATE, LAUNCH])"

text \<open>Modelled from the spec: the request of the missing launcher for a placement.
  Stateless launch is \<open>LaunchTasks(host, taskList)\<close>; stateful launch, when the task
  configuration has a persistent-volume spec, is an \<open>OfferOperations\<close> request.\<close>

definition launchRequest :: "launch_job \<Rightarrow> cm_request" where
  "launchRequest j =
     (if pl_Type (lj_Placement j) = TaskType_STATEFUL \<and> lj_HasVolumeSpec j
      then OfferOperationsRequest (pl_Hostname (lj_Placement j)) (statefulOperations (lj_VolumeState j))
      else LaunchTasksRequest (pl_Hostname (lj_Placement j)) (map fst (lj_Tasks j)))"

text \<open>Modelled from the spec: a task that already has an agent-id binding for
  reserved resources is launched on the reserved offer directly, with LAUNCH alone
  (\<open>LaunchTaskWithReservedResource\<close> of the missing launcher).\<close>

definition LaunchTaskWithReservedResource :: "launcher_effects \<Rightarrow> string \<Rightarrow> launcher_effects" where
  "LaunchTaskWithReservedResource eff hostname =
     eff\<lparr>cmRequests := cmRequests eff @ [OfferOperationsRequest hostname [LAUNCH]]\<rparr>"

text \<open>Modelled from the spec: the attempts of the missing launcher to launch.
  \<open>respond\<close> is the cluster manager's answer to each attempt and \<open>allowed\<close> the
  number of attempts still allowed after this one. InvalidOffers ends the attempts at
  once; InvalidArgument and LaunchFailed are retried up to \<open>maxAttempts\<close>. The
  result is the last answer and the number of retries.\<close>

fun tryLaunch :: "(nat \<Rightarrow> CMReject option) \<Rightarrow> nat \<Rightarrow> nat \<Rightarrow> CMReject option \<times> nat" where
  "tryLaunch respond attempt allowed =
     (case respond attempt of
        None \<Rightarrow> (None, 0)
      | Some InvalidOffers \<Rightarrow> (Some InvalidOffers, 0)
      | Some reject \<Rightarrow>
          (case allowed of
             0 \<Rightarrow> (Some reject, 0)
           | Suc allowed' \<Rightarrow>
               (let (answer, retries) = tryLaunch respond (attempt + 1) allowed'
                in (answer, retries + 1))))"

text \<open>Modelled from the spec: the missing launcher sends a gang back to the
  scheduler: every task gets a regenerated mesos task id and the reason
  HOST_REJECT_OFFER in its runtime, which is written with \<open>updateTaskRuntime\<close>, and
  the gang is enqueued with \<open>EnqueueGangs\<close>.\<close>

definition reenqueueGang ::
  "collaborators \<Rightarrow> launcher_effects \<Rightarrow> (string \<times> TaskInfo) list \<Rightarrow> launcher_effects" where
  "reenqueueGang c eff gang =
     eff\<lparr>updatedRuntimes := updatedRuntimes eff @
            map (\<lambda>(taskID, t). (info_JobId t, info_InstanceId t, rejectedRuntime c t)) gang,
         enqueuedGangs := enqueuedGangs eff @
            [map (\<lambda>(taskID, t). (info_JobId t, info_InstanceId t)) gang]\<rparr>"

text \<open>Modelled from the spec: \<open>ProcessPlacements\<close> of the missing launcher for one
  placement with at most \<open>maxAttempts\<close> attempts (at least one). A placement without
  tasks still releases its offers. A rejected launch releases the offers and sends
  the gang back; the rejection is not returned to the caller.\<close>

definition launchPlacement ::
  "collaborators \<Rightarrow> (nat \<Rightarrow> CMReject option) \<Rightarrow> nat \<Rightarrow> launcher_effects \<Rightarrow> launch_job
     \<Rightarrow> launcher_effects" where
  "launchPlacement c respond maxAttempts eff j =
     (if lj_Tasks j = []
      then eff\<lparr>releasedHosts := releasedHosts eff @ [pl_Hostname (lj_Placement j)]\<rparr>
      else
        let (answer, retries) = tryLaunch respond 0 (maxAttempts - 1);
            eff1 = eff\<lparr>cmRequests := cmRequests eff @ replicate (retries + 1) (launchRequest j),
                       launchRetries := launchRetries eff + retries\<rparr>
        in case answer of
             None \<Rightarrow> eff1
           | Some reject \<Rightarrow>
               reenqueueGang c
                 (eff1\<lparr>releasedHosts := releasedHosts eff1 @ [pl_Hostname (lj_Placement j)]\<rparr>)
                 (lj_Tasks j))"

text \<open>A stateful and a stateless job for the test placement, and a launcher that has done nothing.\<close>

definition statefulPlacement :: Placement where
  "statefulPlacement = testPlacement\<lparr>pl_Type := TaskType_STATEFUL\<rparr>"

definition statefulJob :: "VolumeState option \<Rightarrow> launch_job" where
  "statefulJob v = \<lparr>lj_Placement = statefulPlacement, lj_Tasks = [(''testjob-0'', testTask)],
     lj_HasVolumeSpec = True, lj_VolumeState = v\<rparr>"


definition noLaunches :: launcher_effects where
  "noLaunches = \<lparr>cmRequests = [], launchRetries = 0, releasedHosts = [], updatedRuntimes = [],
     enqueuedGangs = []\<rparr>"


definition alwaysAccepted :: "nat \<Rightarrow> CMReject option" where
  "alwaysAccepted attempt = None"





section \<open>Leader-gated server\<close>

text \<open>
  The host manager's server (\<open>hostmgr/server.go\<close>) is not among the sources: only its
  test suite is (\<open>ServerTestSuite\<close> in \<open>src/unnamed/part_000\<close>, lines 206-620). The
  definitions of this section follow the rule table of the specification (section 4.6)
  for \<open>ensureStateRound\<close>; the order of the calls on the collaborators is the one the
  mocks of the test suite expect. Durations and instants are nanoseconds.
\<close>

text \<open>
  Modelled from the spec: the state variables of the server (\<open>elected\<close>,
  \<open>handlersRunning\<close>, \<open>currentBackoff\<close>, \<open>backoffUntil\<close>) and the two bounds of the
  backoff the test suite sets (\<open>minBackoff\<close>, \<open>maxBackoff\<close>).
\<close>

record Server =
  elected :: bool
  handlersRunning :: bool
  currentBackoffNano :: int
  backoffUntilNano :: int
  minBackoff :: int
  maxBackoff :: int

text \<open>
  Modelled from the spec: the calls of a round on the connection to the cluster
  manager (\<open>mesosInbound\<close>), the leader detector, the task reconciler and the offer
  event handler; \<open>IsRunning\<close> only reads and is not recorded.
\<close>

datatype server_call =
    InboundStop
  | ReconcilerStop
  | EventHandlerStop
  | DetectorHostPort
  | StartMesosLoop string
  | ReconcilerStart
  | EventHandlerStart

text \<open>
  Modelled from the spec: what a round sees of the world. \<open>connected\<close> is the answer of
  \<open>mesosInbound.IsRunning()\<close>, \<open>nowNano\<close> the clock, \<open>leaderHostPort\<close> the answer of the
  detector, \<open>loopStarts hostPort\<close> whether \<open>StartMesosLoop(hostPort)\<close> returns without
  error; \<open>calls\<close> records the calls made, in order.
\<close>

record world =
  connected :: bool
  nowNano :: int
  leaderHostPort :: string
  loopStarts :: "string \<Rightarrow> bool"
  calls :: "server_call list"

text \<open>Modelled from the spec: stop handlers (reconciler, then offer event handler).\<close>

definition stopHandlers :: "Server \<Rightarrow> world \<Rightarrow> Server \<times> world" where
  "stopHandlers s w =
     (s\<lparr>handlersRunning := False\<rparr>, w\<lparr>calls := calls w @ [ReconcilerStop, EventHandlerStop]\<rparr>)"

text \<open>Modelled from the spec: start handlers (reconciler, offer/event handler).\<close>

definition startHandlers :: "Server \<Rightarrow> world \<Rightarrow> Server \<times> world" where
  "startHandlers s w =
     (s\<lparr>handlersRunning := True\<rparr>, w\<lparr>calls := calls w @ [ReconcilerStart, EventHandlerStart]\<rparr>)"

text \<open>
  Modelled from the spec: on error double backoff capped at \<open>maxBackoff\<close>; the first
  failure, when the backoff is zero, sets it to \<open>minBackoff\<close>. The server does not
  connect again before \<open>backoffUntil = now + backoff\<close>.
\<close>

definition nextBackoff :: "Server \<Rightarrow> int" where
  "nextBackoff s =
     (if currentBackoffNano s = 0 then minBackoff s
      else min (2 * currentBackoffNano s) (maxBackoff s))"

definition increaseBackoff :: "Server \<Rightarrow> int \<Rightarrow> Server" where
  "increaseBackoff s now =
     s\<lparr>currentBackoffNano := nextBackoff s, backoffUntilNano := now + nextBackoff s\<rparr>"

text \<open>Modelled from the spec: backoff resets to zero on a successful \<open>startMesosLoop\<close>.\<close>

definition resetBackoff :: "Server \<Rightarrow> Server" where
  "resetBackoff s = s\<lparr>currentBackoffNano := 0\<rparr>"

text \<open>Modelled from the spec: detect leader, \<open>startMesosLoop(hostPort)\<close>.\<close>

definition connectToLeader :: "Server \<Rightarrow> world \<Rightarrow> Server \<times> world" where
  "connectToLeader s w =
     (let hostPort = leaderHostPort w;
          w1 = w\<lparr>calls := calls w @ [DetectorHostPort, StartMesosLoop hostPort]\<rparr>
      in if loopStarts w hostPort then (resetBackoff s, w1\<lparr>connected := True\<rparr>)
         else (increaseBackoff s (nowNano w), w1))"

text \<open>
  Modelled from the spec: one round of the control loop, by the rule table. Not
  elected: disconnect if connected, stop the handlers if they run. Elected and not
  connected: stop the handlers if they run (\<open>TestElectedRestartConnection\<close>), wait
  while \<open>now < backoffUntil\<close>, connect otherwise. Elected and connected, also when the
  round has just connected: start the handlers if they do not run.
\<close>

definition ensureStateRound :: "Server \<Rightarrow> world \<Rightarrow> Server \<times> world" where
  "ensureStateRound s w =
     (if \<not> elected s then
        (let w1 = (if connected w then w\<lparr>connected := False, calls := calls w @ [InboundStop]\<rparr>
                   else w)
         in if handlersRunning s then stopHandlers s w1 else (s, w1))
      else
        (let (s1, w1) =
               (if connected w then (s, w)
                else (let (s0, w0) = (if handlersRunning s then stopHandlers s w else (s, w))
                      in if nowNano w0 < backoffUntilNano s0 then (s0, w0)
                         else connectToLeader s0 w0))
         in if connected w1 \<and> \<not> handlersRunning s1 then startHandlers s1 w1 else (s1, w1)))"

text \<open>Modelled from the spec: consecutive failures, one at each of the given instants.\<close>

primrec failedConnects :: "int list \<Rightarrow> Server \<Rightarrow> Server" where
  "failedConnects [] s = s"
| "failedConnects (now # nows) s = failedConnects nows (increaseBackoff s now)"

text \<open>
  The server and the world of the test suite: a server with backoff bounds of 100 and
  1000 nanoseconds, a world at instant \<open>now\<close> with the leader at \<open>1.2.3.4:5\<close>.
\<close>

definition testServer :: "bool \<Rightarrow> bool \<Rightarrow> int \<Rightarrow> int \<Rightarrow> Server" where
  "testServer e h backoff until =
     \<lparr>elected = e, handlersRunning = h, currentBackoffNano = backoff,
      backoffUntilNano = until, minBackoff = 100, maxBackoff = 1000\<rparr>"

definition testWorld :: "bool \<Rightarrow> int \<Rightarrow> bool \<Rightarrow> world" where
  "testWorld running now starts =
     \<lparr>connected = running, nowNano = now, leaderHostPort = ''1.2.3.4:5'',
      loopStarts = (\<lambda>hostPort. starts), calls = []\<rparr>"

section \<open>The tracker: properties\<close>

subsection \<open>Facts about the placement index\<close>

lemma hostTasks_deleteTaskEntry:
  "hostTasks (deleteTaskEntry p h ty k) h' ty' =
     (if h' = h \<and> ty' = ty then (hostTasks p h ty)(k := None) else hostTasks p h' ty')"
  by (auto simp: hostTasks_def hostTypes_def deleteTaskEntry_def split: option.splits)

lemma hostTypes_deleteTaskEntry_None:
  "hostTypes (deleteTaskEntry p h ty k) h' ty' = None \<longleftrightarrow> hostTypes p h' ty' = None"
  by (auto simp: hostTypes_def deleteTaskEntry_def split: option.splits)

lemma clearPlacement_tasks [simp]: "tasks (clearPlacement tr a) = tasks tr"
  by (simp add: clearPlacement_def Let_def)

lemma clearPlacement_objs [simp]: "objs (clearPlacement tr a) = objs tr"
  by (simp add: clearPlacement_def Let_def)

lemma clearPlacement_pools [simp]: "pools (clearPlacement tr a) = pools tr"
  by (simp add: clearPlacement_def Let_def)

lemma clearPlacement_no_host [simp]:
  "task_Hostname (objs tr a) = [] \<Longrightarrow> clearPlacement tr a = tr"
  by (simp add: clearPlacement_def Let_def)

lemma hostTasks_deleteTypeEntry_empty:
  "hostTasks p h ty = Map.empty \<Longrightarrow> hostTasks (deleteTypeEntry p h ty) h' ty' = hostTasks p h' ty'"
  by (auto simp: hostTasks_def hostTypes_def deleteTypeEntry_def split: option.splits)

lemma hostTasks_remove_empty_host:
  "hostTypes p h = Map.empty \<Longrightarrow> hostTasks (p(h := None)) h' ty' = hostTasks p h' ty'"
  by (auto simp: hostTasks_def hostTypes_def split: option.splits)

lemma hostTasks_clearPlacement:
  assumes "task_Hostname (objs tr a) \<noteq> []"
  shows "hostTasks (placements (clearPlacement tr a)) h ty =
     (if h = task_Hostname (objs tr a) \<and> ty = task_Type (objs tr a)
      then (hostTasks (placements tr) h ty)(task_Id (objs tr a) := None)
      else hostTasks (placements tr) h ty)"
  using assms
  by (simp add: clearPlacement_def Let_def hostTasks_remove_empty_host
        hostTasks_deleteTypeEntry_empty hostTasks_deleteTaskEntry)


lemma hostTypes_deleteTaskEntry:
  "hostTypes (deleteTaskEntry p h ty k) h' =
     (if h' = h
      then (case hostTypes p h ty of
              None \<Rightarrow> hostTypes p h
            | Some tm \<Rightarrow> (hostTypes p h)(ty \<mapsto> tm(k := None)))
      else hostTypes p h')"
  by (auto simp: hostTypes_def deleteTaskEntry_def split: option.splits)

lemma hostTypes_deleteTypeEntry:
  "hostTypes (deleteTypeEntry p h ty) h' =
     (if h' = h then (hostTypes p h)(ty := None) else hostTypes p h')"
  by (auto simp: hostTypes_def deleteTypeEntry_def split: option.splits)

lemma hostTypes_remove_host:
  "hostTypes (p(h := None)) h' = (if h' = h then Map.empty else hostTypes p h')"
  by (simp add: hostTypes_def)

lemma hostTasks_Some_empty: "hostTypes p h ty = Some Map.empty \<Longrightarrow> hostTasks p h ty = Map.empty"
  by (simp add: hostTasks_def)


lemma clearPlacement_no_empty_map:
  assumes "\<forall>h ty. hostTypes (placements tr) h ty \<noteq> Some Map.empty"
  shows "hostTypes (placements (clearPlacement tr a)) h ty \<noteq> Some Map.empty"
proof (cases "task_Hostname (objs tr a) = []")
  case True
  then show ?thesis using assms by simp
next
  case False
  define h0 where "h0 = task_Hostname (objs tr a)"
  define ty0 where "ty0 = task_Type (objs tr a)"
  define p1 where "p1 = deleteTaskEntry (placements tr) h0 ty0 (task_Id (objs tr a))"
  define p2 where "p2 = (if hostTasks p1 h0 ty0 = Map.empty then deleteTypeEntry p1 h0 ty0 else p1)"
  have p1: "hostTypes p1 h ty \<noteq> Some Map.empty" if "\<not> (h = h0 \<and> ty = ty0)" for h ty
    using that assms by (auto simp: p1_def hostTypes_deleteTaskEntry split: option.splits)
  have p2: "hostTypes p2 h ty \<noteq> Some Map.empty" for h ty
  proof (cases "h = h0 \<and> ty = ty0")
    case True
    then show ?thesis
      by (auto simp: p2_def hostTypes_deleteTypeEntry dest: hostTasks_Some_empty)
  next
    case False
    then show ?thesis using p1 [of h ty]
      by (auto simp: p2_def hostTypes_deleteTypeEntry)
  qed
  have "placements (clearPlacement tr a) = (if hostTypes p2 h0 = Map.empty then p2(h0 := None) else p2)"
    using False by (simp add: clearPlacement_def Let_def p2_def p1_def h0_def ty0_def)
  then show ?thesis using p2 [of h ty]
    by (auto simp: hostTypes_remove_host)
qed



subsection \<open>The invariant is kept\<close>

lemma tracker_invI:
  assumes "\<And>k a. tasks tr k = Some a \<Longrightarrow> task_Id (objs tr a) = k"
    and "\<And>h ty. hostTypes (placements tr) h ty \<noteq> Some Map.empty"
    and "\<And>h ty k a. hostTasks (placements tr) h ty k = Some a \<Longrightarrow>
           h \<noteq> [] \<and> tasks tr k = Some a \<and>
           task_Hostname (objs tr a) = h \<and> task_Type (objs tr a) = ty"
  shows "tracker_inv tr"
  unfolding tracker_inv_def using assms by blast

lemma tracker_inv_keyed: "tracker_inv tr \<Longrightarrow> tasks tr k = Some a \<Longrightarrow> task_Id (objs tr a) = k"
  unfolding tracker_inv_def by blast

lemma tracker_inv_no_empty: "tracker_inv tr \<Longrightarrow> hostTypes (placements tr) h ty \<noteq> Some Map.empty"
  unfolding tracker_inv_def by blast

lemma tracker_inv_entry:
  "tracker_inv tr \<Longrightarrow> hostTasks (placements tr) h ty k = Some a \<Longrightarrow>
     h \<noteq> [] \<and> tasks tr k = Some a \<and> task_Hostname (objs tr a) = h \<and> task_Type (objs tr a) = ty"
  unfolding tracker_inv_def by blast

lemma tracker_inv_clearPlacement:
  assumes "tracker_inv tr"
  shows "tracker_inv (clearPlacement tr a)"
proof (cases "task_Hostname (objs tr a) = []")
  case True
  then show ?thesis using assms by simp
next
  case False
  show ?thesis
  proof (rule tracker_invI)
    fix k b assume "tasks (clearPlacement tr a) k = Some b"
    then show "task_Id (objs (clearPlacement tr a) b) = k"
      using tracker_inv_keyed [OF assms] by simp
  next
    fix h ty
    show "hostTypes (placements (clearPlacement tr a)) h ty \<noteq> Some Map.empty"
      using tracker_inv_no_empty [OF assms] by (intro clearPlacement_no_empty_map) simp
  next
    fix h ty k b assume "hostTasks (placements (clearPlacement tr a)) h ty k = Some b"
    then have "hostTasks (placements tr) h ty k = Some b"
      by (simp add: hostTasks_clearPlacement [OF False] split: if_splits)
    from tracker_inv_entry [OF assms this]
    show "h \<noteq> [] \<and> tasks (clearPlacement tr a) k = Some b \<and>
          task_Hostname (objs (clearPlacement tr a) b) = h \<and>
          task_Type (objs (clearPlacement tr a) b) = ty"
      by simp
  qed
qed

lemma deleteTask_tasks [simp]: "tasks (deleteTask tr tid) = (tasks tr)(tid := None)"
  by (simp add: deleteTask_def Let_def split: option.splits)

lemma deleteTask_objs [simp]: "objs (deleteTask tr tid) = objs tr"
  by (simp add: deleteTask_def Let_def split: option.splits)

lemma deleteTask_pools [simp]: "pools (deleteTask tr tid) = pools tr"
  by (simp add: deleteTask_def Let_def split: option.splits)

lemma deleteTask_placements:
  "placements (deleteTask tr tid) =
     (case tasks tr tid of Some a \<Rightarrow> placements (clearPlacement tr a) | None \<Rightarrow> placements tr)"
  by (simp add: deleteTask_def Let_def split: option.splits)


lemma deleteTask_unplaced:
  assumes "tracker_inv tr"
  shows "hostTasks (placements (deleteTask tr tid)) h ty tid = None"
proof (cases "tasks tr tid")
  case None
  show ?thesis
  proof (cases "hostTasks (placements tr) h ty tid")
    case (Some b)
    from tracker_inv_entry [OF assms this] None show ?thesis by simp
  qed (simp add: deleteTask_placements None)
next
  case (Some a)
  have id: "task_Id (objs tr a) = tid" by (rule tracker_inv_keyed [OF assms Some])
  have pl: "placements (deleteTask tr tid) = placements (clearPlacement tr a)"
    by (simp add: deleteTask_placements Some)
  show ?thesis
  proof (cases "hostTasks (placements tr) h ty tid")
    case None
    then show ?thesis
      by (cases "task_Hostname (objs tr a) = []")
         (simp_all add: pl hostTasks_clearPlacement id)
  next
    case (Some b)
    from tracker_inv_entry [OF assms this] \<open>tasks tr tid = Some a\<close>
    have "h \<noteq> []" "b = a" "task_Hostname (objs tr a) = h" "task_Type (objs tr a) = ty"
      by auto
    then show ?thesis using id
      by (simp add: pl hostTasks_clearPlacement)
  qed
qed

lemma tracker_inv_deleteTask:
  assumes "tracker_inv tr"
  shows "tracker_inv (deleteTask tr tid)"
proof -
  define tr1 where "tr1 = (case tasks tr tid of Some a \<Rightarrow> clearPlacement tr a | None \<Rightarrow> tr)"
  have inv1: "tracker_inv tr1"
    using assms by (simp add: tr1_def tracker_inv_clearPlacement split: option.splits)
  have pl: "placements (deleteTask tr tid) = placements tr1"
    by (simp add: deleteTask_placements tr1_def split: option.splits)
  have ts: "tasks tr1 = tasks tr" and ob: "objs tr1 = objs tr"
    by (simp_all add: tr1_def split: option.splits)
  show ?thesis
  proof (rule tracker_invI)
    fix k b assume "tasks (deleteTask tr tid) k = Some b"
    then have "tasks tr k = Some b" by (simp split: if_splits)
    then show "task_Id (objs (deleteTask tr tid) b) = k"
      using tracker_inv_keyed [OF assms] by simp
  next
    fix h ty
    show "hostTypes (placements (deleteTask tr tid)) h ty \<noteq> Some Map.empty"
      using tracker_inv_no_empty [OF inv1] by (simp add: pl)
  next
    fix h ty k b assume e: "hostTasks (placements (deleteTask tr tid)) h ty k = Some b"
    then have "k \<noteq> tid" using deleteTask_unplaced [OF assms, of tid h ty] by auto
    moreover from e have "hostTasks (placements tr1) h ty k = Some b" by (simp add: pl)
    note tracker_inv_entry [OF inv1 this]
    ultimately show "h \<noteq> [] \<and> tasks (deleteTask tr tid) k = Some b \<and>
          task_Hostname (objs (deleteTask tr tid) b) = h \<and>
          task_Type (objs (deleteTask tr tid) b) = ty"
      by (simp add: ts ob)
  qed
qed


lemma tracker_inv_cong:
  assumes "tasks tr' = tasks tr" and "placements tr' = placements tr"
    and "\<And>b. task_Id (objs tr' b) = task_Id (objs tr b)"
    and "\<And>b. task_Hostname (objs tr' b) = task_Hostname (objs tr b)"
    and "\<And>b. task_Type (objs tr' b) = task_Type (objs tr b)"
  shows "tracker_inv tr' = tracker_inv tr"
  by (simp add: tracker_inv_def assms)

lemma tracker_inv_terminate:
  "tracker_inv (tr\<lparr>pools := P, objs := (objs tr)(a := (objs tr a)\<lparr>terminated := True\<rparr>)\<rparr>)
     = tracker_inv tr"
  by (rule tracker_inv_cong) simp_all

lemma markItDone_cases:
  assumes "task_TaskId (objs tr a) = Some mesosTaskID"
  shows "markItDone sub tr a mesosTaskID =
     (if currentState (objs tr a) = TaskState_PENDING \<or> currentState (objs tr a) = TaskState_INITIALIZED
      then (None, doneState tr a (pools tr))
      else (case sub (pools tr (respool (objs tr a))) (taskAllocation (objs tr a)) of
              None \<Rightarrow> (Some (FailedUpdateTask (task_Id (objs tr a))), tr)
            | Some p' \<Rightarrow> (None, doneState tr a ((pools tr)(respool (objs tr a) := p')))))"
  using assms by (simp add: markItDone_def doneState_def Let_def split: option.splits)

lemma doneState_pools [simp]: "pools (doneState tr a P) = P"
  by (simp add: doneState_def)

lemma doneState_tasks [simp]: "tasks (doneState tr a P) = (tasks tr)(task_Id (objs tr a) := None)"
  by (simp add: doneState_def)

lemma doneState_terminated [simp]: "terminated (objs (doneState tr a P) a)"
  by (simp add: doneState_def)

lemma tracker_inv_doneState: "tracker_inv tr \<Longrightarrow> tracker_inv (doneState tr a P)"
  unfolding doneState_def
  by (rule tracker_inv_deleteTask) (simp add: tracker_inv_terminate)

lemma doneState_unplaced:
  "tracker_inv tr \<Longrightarrow> hostTasks (placements (doneState tr a P)) h ty (task_Id (objs tr a)) = None"
proof -
  assume "tracker_inv tr"
  then have "tracker_inv (tr\<lparr>pools := P, objs := (objs tr)(a := (objs tr a)\<lparr>terminated := True\<rparr>)\<rparr>)"
    by (simp add: tracker_inv_terminate)
  from deleteTask_unplaced [OF this] show ?thesis
    by (simp add: doneState_def)
qed





subsection \<open>Placing a task\<close>

lemma hostTasks_addPlacementEntry:
  "hostTasks (addPlacementEntry p h ty k a) h' ty' =
     (if h' = h \<and> ty' = ty \<and> hostTasks p h ty k = None
      then (hostTasks p h ty)(k \<mapsto> a) else hostTasks p h' ty')"
  by (auto simp: addPlacementEntry_def Let_def hostTasks_def hostTypes_def split: option.splits)

lemma hostTypes_addPlacementEntry_no_empty:
  assumes "\<forall>h ty. hostTypes p h ty \<noteq> Some Map.empty"
  shows "hostTypes (addPlacementEntry p h ty k a) h' ty' \<noteq> Some Map.empty"
proof -
  have "hostTypes (addPlacementEntry p h ty k a) h' ty' =
      (if h' = h \<and> ty' = ty \<and> hostTasks p h ty k = None
       then Some ((hostTasks p h ty)(k \<mapsto> a)) else hostTypes p h' ty')"
    using assms
    by (auto simp: addPlacementEntry_def Let_def hostTasks_def hostTypes_def split: option.splits)
  then show ?thesis using assms by auto
qed

lemma setPlacement_Some:
  assumes "tasks tr tid = Some a"
  shows "tasks (setPlacement tr tid h') = tasks tr"
    and "drained (setPlacement tr tid h') = drained (clearPlacement tr a)"
    and "objs (setPlacement tr tid h') = (objs tr)(a := (objs tr a)\<lparr>task_Hostname := h'\<rparr>)"
    and "pools (setPlacement tr tid h') = pools tr"
    and "placements (setPlacement tr tid h') =
           addPlacementEntry (placements (clearPlacement tr a)) h' (task_Type (objs tr a)) tid a"
  using assms by (simp_all add: setPlacement_def Let_def)


lemma clearPlacement_unplaced:
  assumes "tracker_inv tr"
  shows "hostTasks (placements (clearPlacement tr a)) h ty k \<noteq> Some a"
proof
  assume e: "hostTasks (placements (clearPlacement tr a)) h ty k = Some a"
  from tracker_inv_entry [OF tracker_inv_clearPlacement [OF assms] e]
  have h: "h \<noteq> []" and k: "tasks tr k = Some a"
    and hn: "task_Hostname (objs tr a) = h" and ty: "task_Type (objs tr a) = ty"
    by simp_all
  from tracker_inv_keyed [OF assms k] have "task_Id (objs tr a) = k" .
  with e h hn ty show False
    by (simp add: hostTasks_clearPlacement)
qed

lemma tracker_inv_setPlacement:
  assumes "tracker_inv tr" and "hostname \<noteq> []"
  shows "tracker_inv (setPlacement tr tid hostname)"
proof (cases "tasks tr tid")
  case None
  then show ?thesis using assms by (simp add: setPlacement_def)
next
  case (Some a)
  note sp = setPlacement_Some [OF Some, of hostname]
  let ?pc = "placements (clearPlacement tr a)"
  have inv1: "tracker_inv (clearPlacement tr a)"
    by (rule tracker_inv_clearPlacement [OF assms(1)])
  show ?thesis
  proof (rule tracker_invI)
    fix k b assume "tasks (setPlacement tr tid hostname) k = Some b"
    then show "task_Id (objs (setPlacement tr tid hostname) b) = k"
      using tracker_inv_keyed [OF assms(1), of k b] by (auto simp: sp)
  next
    fix h ty
    show "hostTypes (placements (setPlacement tr tid hostname)) h ty \<noteq> Some Map.empty"
      unfolding sp
      by (rule hostTypes_addPlacementEntry_no_empty) (simp add: tracker_inv_no_empty [OF inv1])
  next
    fix h ty k b
    assume e: "hostTasks (placements (setPlacement tr tid hostname)) h ty k = Some b"
    show "h \<noteq> [] \<and> tasks (setPlacement tr tid hostname) k = Some b \<and>
          task_Hostname (objs (setPlacement tr tid hostname) b) = h \<and>
          task_Type (objs (setPlacement tr tid hostname) b) = ty"
    proof (cases "hostTasks ?pc h ty k = Some b")
      case True
      then have "b \<noteq> a" using clearPlacement_unplaced [OF assms(1), of a h ty k] by auto
      with tracker_inv_entry [OF inv1 True] show ?thesis by (simp add: sp)
    next
      case False
      with e have "h = hostname" "ty = task_Type (objs tr a)" "k = tid" "b = a"
        by (auto simp: sp hostTasks_addPlacementEntry split: if_splits)
      then show ?thesis using assms(2) Some by (simp add: sp)
    qed
  qed
qed

lemma tracker_inv_SetPlacementHost:
  assumes "tracker_inv tr" and "hostname \<noteq> []"
  shows "tracker_inv (SetPlacementHost tr ts hostname)"
  using assms(1) unfolding SetPlacementHost_def
  by (induction ts arbitrary: tr) (simp_all add: tracker_inv_setPlacement assms(2))

lemma tracker_inv_empty:
  "tracker_inv \<lparr>tasks = Map.empty, placements = Map.empty, objs = os, pools = ps, drained = ds\<rparr>"
  by (simp add: tracker_inv_def hostTasks_def hostTypes_def)

lemma tracker_inv_Clear: "tracker_inv (Clear tr)"
  by (simp add: tracker_inv_def Clear_def hostTasks_def hostTypes_def)

text \<open>
  A new task, whose id is not tracked yet and whose object is a new one, keeps the
  invariant.
\<close>

lemma tracker_inv_AddTask:
  assumes "tracker_inv tr" and "tasks tr (task_Id t) = None" and "\<forall>k. tasks tr k \<noteq> Some a"
  shows "tracker_inv (AddTask tr a t)"
proof -
  define tr1 where "tr1 = tr\<lparr>objs := (objs tr)(a := t), tasks := (tasks tr)(task_Id t \<mapsto> a)\<rparr>"
  have "tracker_inv tr1"
  proof (rule tracker_invI)
    fix k b assume "tasks tr1 k = Some b"
    then show "task_Id (objs tr1 b) = k"
      using tracker_inv_keyed [OF assms(1), of k b] assms(3)
      by (auto simp: tr1_def split: if_splits)
  next
    fix h ty show "hostTypes (placements tr1) h ty \<noteq> Some Map.empty"
      using tracker_inv_no_empty [OF assms(1)] by (simp add: tr1_def)
  next
    fix h ty k b assume "hostTasks (placements tr1) h ty k = Some b"
    then have e: "hostTasks (placements tr) h ty k = Some b" by (simp add: tr1_def)
    from tracker_inv_entry [OF assms(1) e] assms(2,3)
    have "b \<noteq> a" "k \<noteq> task_Id t" by auto
    with tracker_inv_entry [OF assms(1) e]
    show "h \<noteq> [] \<and> tasks tr1 k = Some b \<and> task_Hostname (objs tr1 b) = h \<and>
          task_Type (objs tr1 b) = ty"
      by (simp add: tr1_def)
  qed
  then show ?thesis
    by (simp add: AddTask_def Let_def tr1_def [symmetric] tracker_inv_setPlacement)
qed


subsection \<open>The example tracker\<close>

lemma tracker0_inv: "tracker_inv (tracker0 n)"
  by (auto simp: tracker_inv_def tracker0_def task0_def hostTasks_def hostTypes_def
        split: if_splits)



subsection \<open>Stale updates, completion and drained hosts\<close>

text \<open>
  C2. For a tracked task, \<open>MarkItDone\<close> with a mesos task id that differs from the
  one the tracker stores returns an error and changes nothing: the task stays in
  both indexes, its state machine is not terminated and no pool is touched.
\<close>

theorem MarkItDone_stale_id_dropped:
  assumes "tasks tr tID = Some a"
    and "task_TaskId (objs tr a) = Some stored"
    and "stored \<noteq> mesosTaskID"
  shows "MarkItDone sub tr tID mesosTaskID =
           (Some (MesosIdDiffers (task_Id (objs tr a)) stored mesosTaskID), tr)"
  using assms by (simp add: MarkItDone_def getTask_def markItDone_def Let_def)

theorem MarkItDone_stale_id_dropped_witness:
  "MarkItDone boundedRelease (tracker0 5) ''job1-0'' ''job1-0-run0'' =
     (Some (MesosIdDiffers ''job1-0'' ''job1-0-run1'' ''job1-0-run0''), tracker0 5)"
  using MarkItDone_stale_id_dropped
    [of "tracker0 5" "''job1-0''" 0 "''job1-0-run1''" "''job1-0-run0''" boundedRelease]
  by (simp add: tracker0_def task0_def)


lemma MarkItDone_matching:
  assumes "tracker_inv tr" and "tasks tr tID = Some a"
    and "task_TaskId (objs tr a) = Some mesosTaskID"
  shows "MarkItDone sub tr tID mesosTaskID =
     (if currentState (objs tr a) = TaskState_PENDING \<or> currentState (objs tr a) = TaskState_INITIALIZED
      then (None, doneState tr a (pools tr))
      else (case sub (pools tr (respool (objs tr a))) (taskAllocation (objs tr a)) of
              None \<Rightarrow> (Some (FailedUpdateTask tID), tr)
            | Some p' \<Rightarrow> (None, doneState tr a ((pools tr)(respool (objs tr a) := p')))))"
  using assms(2) tracker_inv_keyed [OF assms(1,2)]
  by (auto simp: MarkItDone_def getTask_def markItDone_cases [OF assms(3)] split: option.splits)

lemma doneState_untracked:
  assumes "tracker_inv tr" and "tasks tr tID = Some a"
  shows "untracked (doneState tr a P) tID"
  using doneState_unplaced [OF assms(1), of a P] tracker_inv_keyed [OF assms]
  by (simp add: untracked_def)

text \<open>
  C3, as the code has it. For a tracked task whose stored mesos task id is the given
  one: in state PENDING or INITIALIZED \<open>MarkItDone\<close> leaves every pool as it was; in
  any other state it subtracts the task's allocation from its pool. If that
  subtraction fails, \<open>MarkItDone\<close> returns an error and changes nothing. Otherwise it
  returns no error, the state machine is terminated and the task is in neither the
  task index nor the placement index.
\<close>

theorem MarkItDone_releases_then_deletes:
  assumes "tracker_inv tr" and "tasks tr tID = Some a"
    and "task_TaskId (objs tr a) = Some mesosTaskID"
  shows
    "(currentState (objs tr a) = TaskState_PENDING \<or> currentState (objs tr a) = TaskState_INITIALIZED \<longrightarrow>
        (\<exists>tr'. MarkItDone sub tr tID mesosTaskID = (None, tr') \<and> pools tr' = pools tr \<and>
               terminated (objs tr' a) \<and> untracked tr' tID)) \<and>
     (\<not> (currentState (objs tr a) = TaskState_PENDING \<or> currentState (objs tr a) = TaskState_INITIALIZED) \<longrightarrow>
        (case sub (pools tr (respool (objs tr a))) (taskAllocation (objs tr a)) of
           None \<Rightarrow> MarkItDone sub tr tID mesosTaskID = (Some (FailedUpdateTask tID), tr)
         | Some p' \<Rightarrow>
             (\<exists>tr'. MarkItDone sub tr tID mesosTaskID = (None, tr') \<and>
                    pools tr' = (pools tr)(respool (objs tr a) := p') \<and>
                    terminated (objs tr' a) \<and> untracked tr' tID)))"
  using doneState_untracked [OF assms(1,2)]
  by (simp add: MarkItDone_matching [OF assms] split: option.splits)

theorem MarkItDone_releases_then_deletes_witness:
  "\<exists>tr'. MarkItDone boundedRelease (tracker0 5) ''job1-0'' ''job1-0-run1'' = (None, tr') \<and>
         pools tr' = (pools (tracker0 5))(0 := 3) \<and> terminated (objs tr' 0) \<and>
         untracked tr' ''job1-0''"
  using MarkItDone_releases_then_deletes
    [of "tracker0 5" "''job1-0''" 0 "''job1-0-run1''" boundedRelease] tracker0_inv [of 5]
  by (simp add: tracker0_def task0_def boundedRelease_def)

text \<open>
  The claim as stated fails where the pool refuses the subtraction: the task is
  tracked, its mesos task id matches and it is running, yet after \<open>MarkItDone\<close> it
  is still in both indexes.
\<close>

theorem MarkItDone_release_error_keeps_task:
  "tasks (tracker0 1) ''job1-0'' = Some 0 \<and>
   task_TaskId (objs (tracker0 1) 0) = Some ''job1-0-run1'' \<and>
   currentState (objs (tracker0 1) 0) = TaskState_RUNNING \<and>
   fst (MarkItDone boundedRelease (tracker0 1) ''job1-0'' ''job1-0-run1'') =
     Some (FailedUpdateTask ''job1-0'') \<and>
   tasks (snd (MarkItDone boundedRelease (tracker0 1) ''job1-0'' ''job1-0-run1'')) ''job1-0'' = Some 0 \<and>
   hostTasks (placements (snd (MarkItDone boundedRelease (tracker0 1) ''job1-0'' ''job1-0-run1'')))
     ''h1'' TaskType_BATCH ''job1-0'' = Some 0"
  by (simp add: MarkItDone_def getTask_def markItDone_def Let_def tracker0_def task0_def
        boundedRelease_def hostTasks_def hostTypes_def)



section \<open>The matcher: properties\<close>

lemma effectiveHostLimit_nonzero: "effectiveHostLimit f \<noteq> 0"
  by (simp add: effectiveHostLimit_def Let_def)

lemma toLower_limit_name: "toLower ''MISMATCH_MAX_HOST_LIMIT'' = ''mismatch_max_host_limit''"
  by (simp add: toLower_def)

lemma toLower_match_name: "toLower ''MATCH'' = ''match''"
  by (simp add: toLower_def)

lemma HasEnoughHosts_iff:
  assumes "card (dom (hostOffers m)) < 2 ^ 32"
  shows "HasEnoughHosts m \<longleftrightarrow> unat (effectiveHostLimit (hostFilter m)) \<le> card (dom (hostOffers m))"
proof -
  have "unat (of_nat (card (dom (hostOffers m))) :: 32 word) = card (dom (hostOffers m))"
    using assms by (simp add: unat_of_nat)
  then show ?thesis
    by (simp add: HasEnoughHosts_def word_le_nat_alt)
qed

lemma tryMatchImpl_hostFilter [simp]: "hostFilter (snd (tryMatchImpl m h s)) = hostFilter m"
  by (simp add: tryMatchImpl_def Let_def)

lemma tryMatch_hostFilter [simp]: "hostFilter (tryMatch m h s) = hostFilter m"
  by (simp add: tryMatch_def tryMatchImpl_def Let_def split: option.splits)

lemma tryMatch_hostOffers: "hostOffers (tryMatch m h s) = hostOffers (snd (tryMatchImpl m h s))"
  by (simp add: tryMatch_def split: prod.splits option.splits)

lemma matcher_inv_NewMatcher: "matcher_inv (NewMatcher f)"
  by (simp add: matcher_inv_def NewMatcher_def)

lemma matcher_inv_bound: "matcher_inv m \<Longrightarrow> card (dom (hostOffers m)) < 2 ^ 32"
proof -
  assume "matcher_inv m"
  then have "card (dom (hostOffers m)) \<le> unat (effectiveHostLimit (hostFilter m))"
    by (simp add: matcher_inv_def)
  also have "\<dots> < 2 ^ 32" using unsigned_less [of "effectiveHostLimit (hostFilter m)"] by simp
  finally show ?thesis .
qed

lemma matcher_inv_tryMatchImpl:
  assumes "matcher_inv m"
  shows "matcher_inv (snd (tryMatchImpl m h s))"
proof (cases "HasEnoughHosts m \<or> hostOffers m h \<noteq> None \<or> Result (s (hostFilter m)) \<noteq> HostFilterResult_MATCH")
  case True
  then show ?thesis using assms by (auto simp: tryMatchImpl_def Let_def)
next
  case False
  then have ne: "\<not> HasEnoughHosts m" and new: "h \<notin> dom (hostOffers m)" by auto
  from ne have "card (dom (hostOffers m)) < unat (effectiveHostLimit (hostFilter m))"
    using HasEnoughHosts_iff [OF matcher_inv_bound [OF assms]] by simp
  moreover have "finite (dom (hostOffers m))" using assms by (simp add: matcher_inv_def)
  ultimately show ?thesis using False new
    by (simp add: tryMatchImpl_def Let_def matcher_inv_def)
qed

lemma matcher_inv_tryMatch: "matcher_inv m \<Longrightarrow> matcher_inv (tryMatch m h s)"
  using matcher_inv_tryMatchImpl [of m h s]
  by (simp add: matcher_inv_def tryMatch_hostOffers)

text \<open>
  C4. The effective host limit is \<open>Quantity.MaxHosts\<close> when that is not zero and
  \<open>UINT32_MAX\<close> when it is zero (or when the filter has no quantity). Once the number
  of matched hosts has reached the limit, \<open>tryMatch\<close> gives any further host the
  result \<open>MISMATCH_MAX_HOST_LIMIT\<close>, counts it under that name and leaves the matched
  hosts as they are; the matcher is then still at its limit, so this holds for every
  host that follows.
\<close>

theorem host_limit_stops_matching:
  assumes "matcher_inv m"
    and "card (dom (hostOffers m)) = unat (effectiveHostLimit (hostFilter m))"
  shows
    "unat (effectiveHostLimit f) =
       (if GetMaxHosts (GetQuantity f) = 0 then 2 ^ 32 - 1 else unat (GetMaxHosts (GetQuantity f))) \<and>
     tryMatchImpl m hostname s = (HostFilterResult_MISMATCH_MAX_HOST_LIMIT, m) \<and>
     hostOffers (tryMatch m hostname s) = hostOffers m \<and>
     filterResultCounts (tryMatch m hostname s) =
       increment (filterResultCounts m) ''mismatch_max_host_limit'' \<and>
     matcher_inv (tryMatch m hostname s) \<and>
     card (dom (hostOffers (tryMatch m hostname s))) =
       unat (effectiveHostLimit (hostFilter (tryMatch m hostname s)))"
proof -
  have lim: "unat (effectiveHostLimit f) =
       (if GetMaxHosts (GetQuantity f) = 0 then 2 ^ 32 - 1 else unat (GetMaxHosts (GetQuantity f)))"
    by (simp add: effectiveHostLimit_def Let_def)
  have "HasEnoughHosts m"
    using HasEnoughHosts_iff [OF matcher_inv_bound [OF assms(1)]] assms(2) by simp
  then have impl: "tryMatchImpl m hostname s = (HostFilterResult_MISMATCH_MAX_HOST_LIMIT, m)"
    by (simp add: tryMatchImpl_def)
  then have tm: "tryMatch m hostname s =
      m\<lparr>filterResultCounts := increment (filterResultCounts m) ''mismatch_max_host_limit''\<rparr>"
    by (simp add: tryMatch_def toLower_limit_name)
  show ?thesis using lim impl assms by (simp add: tm matcher_inv_def)
qed

lemma matcherFull_inv: "matcher_inv matcherFull"
  by (simp add: matcher_inv_def matcherFull_def filter2_def effectiveHostLimit_def
        GetMaxHosts_def GetQuantity_def Let_def)

theorem host_limit_stops_matching_witness:
  "unat (effectiveHostLimit filter2) = 2 \<and>
   unat (effectiveHostLimit None) = 4294967295 \<and>
   tryMatchImpl matcherFull ''h3'' (summaryMatching 13) =
     (HostFilterResult_MISMATCH_MAX_HOST_LIMIT, matcherFull) \<and>
   hostOffers (tryMatch matcherFull ''h3'' (summaryMatching 13)) = [''h1'' \<mapsto> 11, ''h2'' \<mapsto> 12] \<and>
   filterResultCounts (tryMatch matcherFull ''h3'' (summaryMatching 13)) =
     [''match'' \<mapsto> 2, ''mismatch_max_host_limit'' \<mapsto> 1]"
proof -
  have c: "card (dom (hostOffers matcherFull)) = unat (effectiveHostLimit (hostFilter matcherFull))"
    by (simp add: matcherFull_def filter2_def effectiveHostLimit_def GetMaxHosts_def
          GetQuantity_def Let_def)
  note a = host_limit_stops_matching [OF matcherFull_inv c, of filter2 "''h3''" "summaryMatching 13"]
  note b = host_limit_stops_matching [OF matcherFull_inv c, of None "''h3''" "summaryMatching 13"]
  from a have "unat (effectiveHostLimit filter2) = 2"
    by (simp add: filter2_def GetMaxHosts_def GetQuantity_def)
  moreover from b have "unat (effectiveHostLimit None) = 4294967295"
    by (simp add: GetMaxHosts_def GetQuantity_def)
  moreover from a have "tryMatchImpl matcherFull ''h3'' (summaryMatching 13) =
     (HostFilterResult_MISMATCH_MAX_HOST_LIMIT, matcherFull)" by simp
  moreover from a have "hostOffers (tryMatch matcherFull ''h3'' (summaryMatching 13)) =
      [''h1'' \<mapsto> 11, ''h2'' \<mapsto> 12]"
    by (simp add: matcherFull_def)
  moreover from a have "filterResultCounts (tryMatch matcherFull ''h3'' (summaryMatching 13)) =
     [''match'' \<mapsto> 2, ''mismatch_max_host_limit'' \<mapsto> 1]"
    by (simp add: matcherFull_def increment_def)
  ultimately show ?thesis by simp
qed

text \<open>
  C9. For a hostname that is already among the matched hosts, while the limit is not
  reached, \<open>tryMatchImpl\<close> answers \<open>MATCH\<close> without asking the host summary and
  changes nothing; \<open>tryMatch\<close> only counts the result. \<open>getHostOffers\<close> then
  returns the matched hosts as they were: the host is there once, with the offer it
  was first matched with.
\<close>

theorem tryMatch_idempotent_per_host:
  assumes "hostOffers m hostname = Some offer" and "\<not> HasEnoughHosts m"
  shows
    "tryMatchImpl m hostname s = (HostFilterResult_MATCH, m) \<and>
     hostOffers (tryMatch m hostname s) = hostOffers m \<and>
     filterResultCounts (tryMatch m hostname s) = increment (filterResultCounts m) ''match'' \<and>
     fst (fst (getHostOffers (tryMatch m hostname s))) = hostOffers m \<and>
     fst (fst (getHostOffers (tryMatch m hostname s))) hostname = Some offer \<and>
     card (dom (fst (fst (getHostOffers (tryMatch m hostname s))))) = card (dom (hostOffers m))"
proof -
  have impl: "tryMatchImpl m hostname s = (HostFilterResult_MATCH, m)"
    using assms by (simp add: tryMatchImpl_def)
  then have tm: "tryMatch m hostname s =
      m\<lparr>filterResultCounts := increment (filterResultCounts m) ''match''\<rparr>"
    by (simp add: tryMatch_def toLower_match_name)
  show ?thesis using impl assms(1) by (simp add: tm getHostOffers_def)
qed

theorem tryMatch_idempotent_per_host_witness:
  "tryMatchImpl matcherOne ''h1'' (summaryMatching 99) = (HostFilterResult_MATCH, matcherOne) \<and>
   fst (fst (getHostOffers (tryMatch matcherOne ''h1'' (summaryMatching 99)))) = [''h1'' \<mapsto> 11] \<and>
   filterResultCounts (tryMatch matcherOne ''h1'' (summaryMatching 99)) = [''match'' \<mapsto> 2]"
proof -
  have ne: "\<not> HasEnoughHosts matcherOne"
    by (simp add: HasEnoughHosts_def matcherOne_def filter2_def effectiveHostLimit_def
          GetMaxHosts_def GetQuantity_def Let_def word_le_nat_alt)
  have h: "hostOffers matcherOne ''h1'' = Some 11" by (simp add: matcherOne_def)
  from tryMatch_idempotent_per_host [OF h ne, of "summaryMatching 99"]
  show ?thesis by (simp add: matcherOne_def increment_def)
qed

section \<open>Validation: properties\<close>


lemma capped_refl [simp]: "capped a a"
  by (simp add: capped_def)











subsection \<open>Only \<open>MaxFailures\<close> is written, and no error depends on it\<close>


lemma zeroPolicy_idem [simp]: "zeroPolicy (zeroPolicy t) = zeroPolicy t"
  by (cases "task_RestartPolicy t") (simp_all add: zeroPolicy_def)

lemma withoutMaxFailures_idem [simp]:
  "withoutMaxFailures (withoutMaxFailures c) = withoutMaxFailures c"
  by (simp add: withoutMaxFailures_def option.map_comp comp_def)











subsection \<open>Capping the retries\<close>






section \<open>The placement processor: properties\<close>



















section \<open>The launcher: properties\<close>



lemma tryLaunch_accepted:
  "respond attempt = None \<Longrightarrow> tryLaunch respond attempt allowed = (None, 0)"
  by simp

declare tryLaunch.simps [simp del]







text \<open>
  C6. The launcher as the specification describes it, for a stateful placement whose
  task configuration has a persistent-volume spec: every request it sends for the
  placement is an \<open>OfferOperations\<close> request, with the single operation LAUNCH when
  the volume is in CREATED state and with the three operations RESERVE, CREATE,
  LAUNCH, in this order, otherwise; when the first attempt is accepted it is the
  only request.
\<close>

theorem stateful_launch_operations:
  assumes "pl_Type (lj_Placement j) = TaskType_STATEFUL" and "lj_HasVolumeSpec j"
    and "lj_Tasks j \<noteq> []" and "respond 0 = None"
  shows
    "launchRequest j =
       OfferOperationsRequest (pl_Hostname (lj_Placement j))
         (if lj_VolumeState j = Some VolumeState_CREATED then [LAUNCH] else [RESERVE, CREATE, LAUNCH]) \<and>
     cmRequests (launchPlacement c respond maxAttempts eff j) = cmRequests eff @ [launchRequest j] \<and>
     length (statefulOperations (lj_VolumeState j)) =
       (if lj_VolumeState j = Some VolumeState_CREATED then 1 else 3)"
  using assms
  by (simp add: launchRequest_def statefulOperations_def launchPlacement_def
        tryLaunch_accepted [of respond 0, OF assms(4)])

theorem stateful_launch_operations_witness:
  "cmRequests (launchPlacement testCollaborators alwaysAccepted 5 noLaunches
      (statefulJob (Some VolumeState_CREATED))) =
     [OfferOperationsRequest ''hostname-0'' [LAUNCH]] \<and>
   cmRequests (launchPlacement testCollaborators alwaysAccepted 5 noLaunches (statefulJob None)) =
     [OfferOperationsRequest ''hostname-0'' [RESERVE, CREATE, LAUNCH]]"
proof -
  have s: "pl_Type (lj_Placement (statefulJob v)) = TaskType_STATEFUL" "lj_HasVolumeSpec (statefulJob v)"
    "lj_Tasks (statefulJob v) \<noteq> []" for v
    by (simp_all add: statefulJob_def statefulPlacement_def)
  have r: "alwaysAccepted 0 = None" by (simp add: alwaysAccepted_def)
  from stateful_launch_operations [where j = "statefulJob (Some VolumeState_CREATED)"
      and respond = alwaysAccepted and c = testCollaborators and maxAttempts = 5
      and eff = noLaunches, OF s r]
    stateful_launch_operations [where j = "statefulJob None" and respond = alwaysAccepted
      and c = testCollaborators and maxAttempts = 5 and eff = noLaunches, OF s r]
  show ?thesis
    by (simp add: statefulJob_def statefulPlacement_def testPlacement_def noLaunches_def)
qed

subsection \<open>Leader-gated server: the rounds of the test suite\<close>

lemma TestUnelectedNoOp:
  "ensureStateRound (testServer False False 0 0) (testWorld False 5000 True) =
     (testServer False False 0 0, testWorld False 5000 True)"
  by (simp add: ensureStateRound_def testServer_def testWorld_def)

lemma TestUnelectedStopConnectionAndHandler:
  "ensureStateRound (testServer False True 0 0) (testWorld True 5000 True) =
     (testServer False False 0 0,
      (testWorld False 5000 True)\<lparr>calls := [InboundStop, ReconcilerStop, EventHandlerStop]\<rparr>)"
  by (simp add: ensureStateRound_def stopHandlers_def testServer_def testWorld_def)

lemma TestElectedNoOp:
  "ensureStateRound (testServer True True 0 0) (testWorld True 5000 True) =
     (testServer True True 0 0, testWorld True 5000 True)"
  by (simp add: ensureStateRound_def testServer_def testWorld_def)

lemma TestElectedRestartConnection:
  "ensureStateRound (testServer True True 0 0) (testWorld False 5000 True) =
     (testServer True True 0 0,
      (testWorld True 5000 True)\<lparr>calls := [ReconcilerStop, EventHandlerStop, DetectorHostPort,
         StartMesosLoop ''1.2.3.4:5'', ReconcilerStart, EventHandlerStart]\<rparr>)"
  by (simp add: ensureStateRound_def stopHandlers_def startHandlers_def connectToLeader_def
        resetBackoff_def testServer_def testWorld_def)

lemma TestElectedRestartHandlers:
  "ensureStateRound (testServer True False 0 0) (testWorld True 5000 True) =
     (testServer True True 0 0,
      (testWorld True 5000 True)\<lparr>calls := [ReconcilerStart, EventHandlerStart]\<rparr>)"
  by (simp add: ensureStateRound_def startHandlers_def testServer_def testWorld_def)

lemma TestBackoffOnMesosConnectFailure:
  "ensureStateRound (testServer True False 0 0) (testWorld False 5000 False) =
     (testServer True False 100 5100,
      (testWorld False 5000 False)\<lparr>calls := [DetectorHostPort, StartMesosLoop ''1.2.3.4:5'']\<rparr>)"
  by (simp add: ensureStateRound_def connectToLeader_def increaseBackoff_def nextBackoff_def
        testServer_def testWorld_def)

lemma TestEffectiveBackoff:
  "ensureStateRound (testServer True False 100 5100) (testWorld False 5000 False) =
     (testServer True False 100 5100, testWorld False 5000 False)"
  by (simp add: ensureStateRound_def testServer_def testWorld_def)

subsection \<open>Leader-gated server: backoff\<close>

lemma increaseBackoff_fields:
  "currentBackoffNano (increaseBackoff s now) = nextBackoff s"
  "backoffUntilNano (increaseBackoff s now) = now + nextBackoff s"
  "minBackoff (increaseBackoff s now) = minBackoff s"
  "maxBackoff (increaseBackoff s now) = maxBackoff s"
  "elected (increaseBackoff s now) = elected s"
  "handlersRunning (increaseBackoff s now) = handlersRunning s"
  by (simp_all add: increaseBackoff_def)

lemma nextBackoff_bounds:
  assumes "0 < minBackoff s" and "minBackoff s \<le> maxBackoff s" and "0 \<le> currentBackoffNano s"
  shows "0 < nextBackoff s" and "nextBackoff s \<le> maxBackoff s"
    and "currentBackoffNano s \<le> maxBackoff s \<Longrightarrow> currentBackoffNano s \<le> nextBackoff s"
  using assms by (auto simp add: nextBackoff_def)

lemma failedConnects_bounds:
  "minBackoff (failedConnects nows s) = minBackoff s"
  "maxBackoff (failedConnects nows s) = maxBackoff s"
  by (induction nows arbitrary: s) (simp_all add: increaseBackoff_fields)

lemma failedConnects_snoc:
  "failedConnects (nows @ [now]) s = increaseBackoff (failedConnects nows s) now"
  by (induction nows arbitrary: s) simp_all

text \<open>
  Consecutive failures from a zero backoff: after \<open>n + 1\<close> of them the backoff is
  \<open>min (2 ^ n * minBackoff) maxBackoff\<close>.
\<close>

lemma failedConnects_closed_form:
  assumes "currentBackoffNano s = 0" and "0 < minBackoff s" and "minBackoff s \<le> maxBackoff s"
  shows "currentBackoffNano (failedConnects (nows @ [now]) s) =
           min (2 ^ length nows * minBackoff s) (maxBackoff s)"
proof (induction nows arbitrary: now rule: rev_induct)
  case Nil
  show ?case using assms by (simp add: increaseBackoff_fields nextBackoff_def)
next
  case (snoc x xs)
  let ?b = "min (2 ^ length xs * minBackoff s) (maxBackoff s)"
  have pos: "0 < (2::int) ^ length xs * minBackoff s" using assms(2) by simp
  have b: "currentBackoffNano (failedConnects (xs @ [x]) s) = ?b" by (rule snoc.IH)
  have nz: "?b \<noteq> 0" using pos assms(2,3) by linarith
  have "currentBackoffNano (failedConnects ((xs @ [x]) @ [now]) s) =
          nextBackoff (failedConnects (xs @ [x]) s)"
    by (simp only: failedConnects_snoc increaseBackoff_fields)
  also have "\<dots> = min (2 * ?b) (maxBackoff s)"
    using nz by (simp add: nextBackoff_def b failedConnects_bounds del: failedConnects.simps)
  also have "\<dots> = min (2 ^ length (xs @ [x]) * minBackoff s) (maxBackoff s)"
    using pos assms(2,3) by (simp add: min_def)
  finally show ?case .
qed

text \<open>
  C1. \<open>ensureStateRound\<close> as the specification describes it: when the server is
  elected, the connection to the cluster manager is not running and the backoff
  window has passed (\<open>backoffUntil \<le> now\<close>), the round asks the detector for the leader
  and calls \<open>startMesosLoop\<close> once. If the call fails, \<open>currentBackoff\<close> becomes
  \<open>minBackoff\<close> when it was zero and \<open>min (2 * currentBackoff) maxBackoff\<close> otherwise,
  and \<open>backoffUntil\<close> becomes \<open>now\<close> plus the new backoff; the handlers do not run.
  If the call succeeds, \<open>currentBackoff\<close> becomes zero, \<open>backoffUntil\<close> is kept and the
  handlers are started.
\<close>

theorem connect_failure_doubles_backoff:
  assumes "elected s" and "\<not> connected w" and "backoffUntilNano s \<le> nowNano w"
  shows
    "currentBackoffNano (fst (ensureStateRound s w)) =
       (if loopStarts w (leaderHostPort w) then 0
        else if currentBackoffNano s = 0 then minBackoff s
        else min (2 * currentBackoffNano s) (maxBackoff s)) \<and>
     backoffUntilNano (fst (ensureStateRound s w)) =
       (if loopStarts w (leaderHostPort w) then backoffUntilNano s
        else nowNano w + currentBackoffNano (fst (ensureStateRound s w))) \<and>
     handlersRunning (fst (ensureStateRound s w)) = loopStarts w (leaderHostPort w) \<and>
     connected (snd (ensureStateRound s w)) = loopStarts w (leaderHostPort w) \<and>
     filter (\<lambda>c. c \<in> {DetectorHostPort, StartMesosLoop (leaderHostPort w)})
         (calls (snd (ensureStateRound s w))) =
       filter (\<lambda>c. c \<in> {DetectorHostPort, StartMesosLoop (leaderHostPort w)}) (calls w) @
         [DetectorHostPort, StartMesosLoop (leaderHostPort w)]"
  using assms
  by (simp add: ensureStateRound_def stopHandlers_def startHandlers_def connectToLeader_def
        increaseBackoff_def resetBackoff_def nextBackoff_def Let_def)

theorem connect_failure_doubles_backoff_witness:
  "currentBackoffNano (fst (ensureStateRound (testServer True False 100 5000) (testWorld False 5000 False))) = 200 \<and>
   backoffUntilNano (fst (ensureStateRound (testServer True False 100 5000) (testWorld False 5000 False))) = 5200 \<and>
   currentBackoffNano (fst (ensureStateRound (testServer True False 999 5000) (testWorld False 5000 False))) = 1000 \<and>
   backoffUntilNano (fst (ensureStateRound (testServer True False 999 5000) (testWorld False 5000 False))) = 6000 \<and>
   currentBackoffNano (fst (ensureStateRound (testServer True False 999 5000) (testWorld False 5000 True))) = 0 \<and>
   handlersRunning (fst (ensureStateRound (testServer True False 999 5000) (testWorld False 5000 True)))"
proof -
  have h: "elected (testServer True False b 5000)" "\<not> connected (testWorld False 5000 r)"
    "backoffUntilNano (testServer True False b 5000) \<le> nowNano (testWorld False 5000 r)" for b r
    by (simp_all add: testServer_def testWorld_def)
  from connect_failure_doubles_backoff [where s = "testServer True False 100 5000"
      and w = "testWorld False 5000 False", OF h]
    connect_failure_doubles_backoff [where s = "testServer True False 999 5000"
      and w = "testWorld False 5000 False", OF h]
    connect_failure_doubles_backoff [where s = "testServer True False 999 5000"
      and w = "testWorld False 5000 True", OF h]
  show ?thesis
    by (simp add: testServer_def testWorld_def)
qed

end
